theory Spec2Isabelle
  imports Complex_Main "HOL-Library.Sublist"
begin

section \<open>Python values reaching the web application\<close>

text \<open>
  The request body is whatever \<^verbatim>\<open>request.json\<close> parsed: a JSON value. A JSON number
  with a fraction or an exponent is a Python float; only its conversion by \<^verbatim>\<open>int()\<close>
  matters here, so a finite float is represented by the rational it denotes.
  A string is a list of characters, each standing for one code point below 256.
  The list under \<open>JObj\<close> holds the items of the parsed dict (one entry per key).
\<close>

datatype pyfloat = Finite rat | PosInf | NegInf | NaN

datatype json =
    JNull
  | JBool bool
  | JInt int
  | JFloat pyfloat
  | JStr string
  | JArr "json list"
  | JObj "(string \<times> json) list"

text \<open>The exceptions the request handler can meet. \<open>ValueError\<close> is the only one it catches.\<close>

datatype py_error = AttributeError | TypeError | ValueError | OverflowError

fun bind :: "'e + 'a \<Rightarrow> ('a \<Rightarrow> 'e + 'b) \<Rightarrow> 'e + 'b" where
  "bind (Inl e) f = Inl e"
| "bind (Inr x) f = f x"

text \<open>\<^verbatim>\<open>data.get(key, default)\<close>: only a dict has the method.\<close>

definition dict_get :: "json \<Rightarrow> string \<Rightarrow> json \<Rightarrow> py_error + json" where
  "dict_get data k d =
     (case data of
        JObj kvs \<Rightarrow> Inr (case map_of kvs k of None \<Rightarrow> d | Some v \<Rightarrow> v)
      | _ \<Rightarrow> Inl AttributeError)"

text \<open>\<^verbatim>\<open>str.isspace\<close> on the code points below 256, and \<^verbatim>\<open>str.strip()\<close>.\<close>

definition is_space :: "char \<Rightarrow> bool" where
  "is_space c =
     (let n = (of_char c :: nat)
      in (9 \<le> n \<and> n \<le> 13) \<or> (28 \<le> n \<and> n \<le> 32) \<or> n = 133 \<or> n = 160)"

definition py_strip :: "string \<Rightarrow> string" where
  "py_strip s = rev (dropWhile is_space (rev (dropWhile is_space s)))"

text \<open>\<^verbatim>\<open>value.strip()\<close> on a JSON value: every value that is not a str has no such method.\<close>

definition strip :: "json \<Rightarrow> py_error + string" where
  "strip v = (case v of JStr s \<Rightarrow> Inr (py_strip s) | _ \<Rightarrow> Inl AttributeError)"

text \<open>
  \<^verbatim>\<open>int(value)\<close>. The parser of decimal strings is Python's own and is taken as the
  parameter \<open>parse\<close> (\<open>None\<close> where Python raises \<open>ValueError\<close>). A float is truncated
  towards zero; \<^verbatim>\<open>int(None)\<close>, \<^verbatim>\<open>int([])\<close> and \<^verbatim>\<open>int({})\<close> raise \<open>TypeError\<close>.
\<close>

fun py_int :: "(string \<Rightarrow> int option) \<Rightarrow> json \<Rightarrow> py_error + int" where
  "py_int parse (JInt n) = Inr n"
| "py_int parse (JBool b) = Inr (if b then 1 else 0)"
| "py_int parse (JFloat (Finite r)) = Inr (if 0 \<le> r then \<lfloor>r\<rfloor> else \<lceil>r\<rceil>)"
| "py_int parse (JFloat NaN) = Inl ValueError"
| "py_int parse (JFloat PosInf) = Inl OverflowError"
| "py_int parse (JFloat NegInf) = Inl OverflowError"
| "py_int parse (JStr s) = (case parse s of None \<Rightarrow> Inl ValueError | Some n \<Rightarrow> Inr n)"
| "py_int parse JNull = Inl TypeError"
| "py_int parse (JArr xs) = Inl TypeError"
| "py_int parse (JObj kvs) = Inl TypeError"

text \<open>\<^verbatim>\<open>os.path.basename\<close> (POSIX): what follows the last slash.\<close>

definition basename :: "string \<Rightarrow> string" where
  "basename p = rev (takeWhile (\<lambda>c. c \<noteq> CHR ''/'') (rev p))"

section \<open>The job store\<close>

record params =
  city :: string
  country :: string
  theme :: string
  distance :: int
  display_name :: "string option"

record job =
  status :: string
  progress :: int
  result :: "string option"
  error :: "string option"
  params :: params

type_synonym jobs = "string \<rightharpoonup> job"

text \<open>
  \<^verbatim>\<open>update_job_status(job_id, status, progress=None, result=None, error=None)\<close>.
  The body runs under \<^verbatim>\<open>jobs_lock\<close>, so it is one atomic step on the store.
\<close>

definition update_job_status ::
  "jobs \<Rightarrow> string \<Rightarrow> string \<Rightarrow> int option \<Rightarrow> string option \<Rightarrow> string option \<Rightarrow> jobs" where
  "update_job_status jobs job_id st prog res err =
     (case jobs job_id of
        None \<Rightarrow> jobs
      | Some j \<Rightarrow>
          jobs(job_id \<mapsto>
            j\<lparr>status := st,
              progress := (case prog of None \<Rightarrow> progress j | Some p \<Rightarrow> p),
              result := (case res of None \<Rightarrow> result j | Some r \<Rightarrow> Some r),
              error := (case err of None \<Rightarrow> error j | Some e \<Rightarrow> Some e)\<rparr>))"

section \<open>The generation worker\<close>

text \<open>
  The module \<^verbatim>\<open>create_map_poster\<close> is a collaborator outside this repository file. Each
  of its functions either returns or raises an \<^verbatim>\<open>Exception\<close>; \<open>Inl msg\<close> stands for
  a raise whose \<^verbatim>\<open>str(e)\<close> is \<open>msg\<close>. The global \<^verbatim>\<open>poster.THEME\<close> assigned in step 2 is
  handed to \<open>create_poster\<close> as its first argument.
\<close>

record ('c, 't) poster =
  get_coordinates :: "string \<Rightarrow> string \<Rightarrow> string + 'c"
  load_theme :: "string \<Rightarrow> string + 't"
  generate_output_filename :: "string \<Rightarrow> string \<Rightarrow> string + string"
  create_poster ::
    "'t \<Rightarrow> string \<Rightarrow> string \<Rightarrow> 'c \<Rightarrow> int \<Rightarrow> string \<Rightarrow> string option \<Rightarrow> string + unit"

text \<open>One call \<^verbatim>\<open>update_job_status(job_id, status, progress, result, error)\<close>.\<close>

type_synonym call = "string \<times> string \<times> int option \<times> string option \<times> string option"

fun apply_call :: "jobs \<Rightarrow> call \<Rightarrow> jobs" where
  "apply_call jobs (job_id, st, prog, res, err) = update_job_status jobs job_id st prog res err"

text \<open>\<^verbatim>\<open>display_name if display_name else city\<close>: \<open>None\<close> and the empty str are falsy.\<close>

definition filename_city :: "string \<Rightarrow> string option \<Rightarrow> string" where
  "filename_city cty dname = (case dname of None \<Rightarrow> cty | Some d \<Rightarrow> if d = [] then cty else d)"

text \<open>
  The body of the \<^verbatim>\<open>try\<close> block of \<^verbatim>\<open>run_generation\<close>: the calls of
  \<open>update_job_status\<close> it has made, in order, and how it ended (\<open>Inl msg\<close>: an exception
  with message \<open>msg\<close> left the block). The worker never reads the store.
\<close>

definition try_body ::
  "('c, 't) poster \<Rightarrow> string \<Rightarrow> string \<Rightarrow> string \<Rightarrow> string \<Rightarrow> int \<Rightarrow> string option
     \<Rightarrow> call list \<times> (string + unit)" where
  "try_body p job_id cty ctry theme_name dist_m dname =
     (let c1 = (job_id, ''geocoding'', Some 10, None, None) in
      case get_coordinates p cty ctry of
        Inl e \<Rightarrow> ([c1], Inl e)
      | Inr coords \<Rightarrow>
     (let c2 = (job_id, ''loading_theme'', Some 20, None, None) in
      case load_theme p theme_name of
        Inl e \<Rightarrow> ([c1, c2], Inl e)
      | Inr THEME \<Rightarrow>
     (let c3 = (job_id, ''downloading'', Some 30, None, None) in
      case generate_output_filename p (filename_city cty dname) theme_name of
        Inl e \<Rightarrow> ([c1, c2, c3], Inl e)
      | Inr output_file \<Rightarrow>
     (let c4 = (job_id, ''rendering'', Some 50, None, None) in
      case create_poster p THEME cty ctry coords dist_m output_file dname of
        Inl e \<Rightarrow> ([c1, c2, c3, c4], Inl e)
      | Inr u \<Rightarrow>
     (let filename = basename output_file;
          c5 = (job_id, ''complete'', Some 100, Some filename, None)
      in ([c1, c2, c3, c4, c5], Inr ()))))))"

text \<open>
  \<^verbatim>\<open>run_generation\<close> with its \<^verbatim>\<open>except Exception\<close> handler: all the calls of
  \<open>update_job_status\<close> one worker makes. The traceback goes to stderr and is not modelled.
\<close>

definition run_generation_calls ::
  "('c, 't) poster \<Rightarrow> string \<Rightarrow> string \<Rightarrow> string \<Rightarrow> string \<Rightarrow> int \<Rightarrow> string option \<Rightarrow> call list" where
  "run_generation_calls p job_id cty ctry theme_name dist_m dname =
     (case try_body p job_id cty ctry theme_name dist_m dname of
        (cs, Inl error_msg) \<Rightarrow> cs @ [(job_id, ''error'', None, None, Some error_msg)]
      | (cs, Inr u) \<Rightarrow> cs)"

text \<open>The stores a poller can see while the calls are applied: before the first, and after each.\<close>

fun states_after :: "jobs \<Rightarrow> call list \<Rightarrow> jobs list" where
  "states_after jobs [] = [jobs]"
| "states_after jobs (c # cs) = jobs # states_after (apply_call jobs c) cs"

definition run_generation ::
  "('c, 't) poster \<Rightarrow> jobs \<Rightarrow> string \<Rightarrow> string \<Rightarrow> string \<Rightarrow> string \<Rightarrow> int \<Rightarrow> string option \<Rightarrow> jobs" where
  "run_generation p jobs job_id cty ctry theme_name dist_m dname =
     foldl apply_call jobs (run_generation_calls p job_id cty ctry theme_name dist_m dname)"

section \<open>The HTTP handlers\<close>

text \<open>A response is the JSON body given to \<^verbatim>\<open>jsonify\<close> and the HTTP status code.\<close>

datatype body = ErrorBody string | JobIdBody string | JobBody job

type_synonym response = "body \<times> nat"

text \<open>
  What the handler takes from its environment: the list \<^verbatim>\<open>poster.get_available_themes()\<close>
  returns, Python's parser behind \<^verbatim>\<open>int(str)\<close>, and \<^verbatim>\<open>str()\<close> of a value that is not a
  str (used by the f-string of the theme error).
\<close>

record pyenv =
  available_themes :: "string list"
  int_of_str :: "string \<Rightarrow> int option"
  str_of_other :: "json \<Rightarrow> string"

text \<open>\<^verbatim>\<open>theme_name in available_themes\<close>, a list of str: only an equal str is a member.\<close>

definition theme_member :: "json \<Rightarrow> string list \<Rightarrow> string option" where
  "theme_member v ts = (case v of JStr t \<Rightarrow> if t \<in> set ts then Some t else None | _ \<Rightarrow> None)"

definition format_value :: "pyenv \<Rightarrow> json \<Rightarrow> string" where
  "format_value env v = (case v of JStr s \<Rightarrow> s | _ \<Rightarrow> str_of_other env v)"

definition theme_not_found :: "pyenv \<Rightarrow> json \<Rightarrow> string" where
  "theme_not_found env v = ''Theme '' @ [CHR 0x27] @ format_value env v @ [CHR 0x27] @ '' not found''"

type_synonym thread_args = "string \<times> string \<times> string \<times> string \<times> int \<times> string option"

definition new_job :: "string \<Rightarrow> string \<Rightarrow> string \<Rightarrow> int \<Rightarrow> string option \<Rightarrow> job" where
  "new_job cty ctry theme_name dist_m dname =
     \<lparr>status = ''pending'', progress = 0, result = None, error = None,
      params = \<lparr>city = cty, country = ctry, theme = theme_name, distance = dist_m,
                display_name = dname\<rparr>\<rparr>"

text \<open>
  \<^verbatim>\<open>generate()\<close>. \<open>uuid4\<close> is the string \<^verbatim>\<open>str(uuid.uuid4())\<close> drawn for this request.
  The result is \<open>Inl\<close> for an exception that leaves the handler, otherwise the response,
  the store, and the arguments of the thread that was started (if any).
\<close>

definition generate ::
  "pyenv \<Rightarrow> string \<Rightarrow> json \<Rightarrow> jobs \<Rightarrow> py_error + (response \<times> jobs \<times> thread_args option)" where
  "generate env uuid4 data jobs =
     bind (bind (dict_get data ''city'' (JStr [])) strip) (\<lambda>cty.
     bind (bind (dict_get data ''country'' (JStr [])) strip) (\<lambda>ctry.
     if cty = [] \<or> ctry = []
     then Inr ((ErrorBody ''City and country are required'', 400), jobs, None)
     else
     bind (dict_get data ''theme'' (JStr ''feature_based'')) (\<lambda>theme_name.
     bind (dict_get data ''distance'' (JInt 10000)) (\<lambda>dist_m.
     bind (bind (dict_get data ''display_name'' (JStr [])) strip) (\<lambda>dn.
     let dname = (if dn = [] then None else Some dn) in
     case theme_member theme_name (available_themes env) of
       None \<Rightarrow> Inr ((ErrorBody (theme_not_found env theme_name), 400), jobs, None)
     | Some th \<Rightarrow>
        (case py_int (int_of_str env) dist_m of
           Inl ValueError \<Rightarrow> Inr ((ErrorBody ''Invalid distance value'', 400), jobs, None)
         | Inl e \<Rightarrow> Inl e
         | Inr d \<Rightarrow>
             if d < 1000 \<or> d > 50000
             then Inr ((ErrorBody ''Distance must be between 1000 and 50000 meters'', 400),
                       jobs, None)
             else
               let job_id = uuid4 in
               Inr ((JobIdBody job_id, 200),
                    jobs(job_id \<mapsto> new_job cty ctry th d dname),
                    Some (job_id, cty, ctry, th, d, dname))))))))"

text \<open>\<^verbatim>\<open>get_status(job_id)\<close>: lookup and copy happen under the lock; the store is not written.\<close>

definition get_status :: "jobs \<Rightarrow> string \<Rightarrow> response" where
  "get_status jobs job_id =
     (case jobs job_id of
        None \<Rightarrow> (ErrorBody ''Job not found'', 404)
      | Some j \<Rightarrow> (JobBody j, 200))"

section \<open>The store as concurrent requests and workers see it\<close>

text \<open>
  Every access to \<^verbatim>\<open>jobs\<close> is made under \<^verbatim>\<open>jobs_lock\<close>, so a run of the server is a
  sequence of atomic events on the store: a submission handled by \<open>generate\<close> (with the
  string \<^verbatim>\<open>uuid4\<close> gives it), one call of \<open>update_job_status\<close> by some worker, or a
  status query.
\<close>

datatype event = Submit string json | Update call | Poll string

fun step :: "pyenv \<Rightarrow> jobs \<Rightarrow> event \<Rightarrow> jobs" where
  "step env jobs (Submit u data) =
     (case generate env u data jobs of Inl e \<Rightarrow> jobs | Inr (r, jobs', th) \<Rightarrow> jobs')"
| "step env jobs (Update c) = apply_call jobs c"
| "step env jobs (Poll job_id) = jobs"

text \<open>The job ids that successful submissions have returned to clients, in order.\<close>

fun issued :: "pyenv \<Rightarrow> jobs \<Rightarrow> event list \<Rightarrow> string list" where
  "issued env jobs [] = []"
| "issued env jobs (Submit u data # evs) =
     (case generate env u data jobs of
        Inr ((JobIdBody i, code), jobs', th) \<Rightarrow> [i]
      | _ \<Rightarrow> []) @ issued env (step env jobs (Submit u data)) evs"
| "issued env jobs (ev # evs) = issued env (step env jobs ev) evs"

text \<open>The strings \<^verbatim>\<open>uuid4\<close> has in store for the submissions, in order.\<close>

fun draws :: "event list \<Rightarrow> string list" where
  "draws [] = []"
| "draws (Submit u data # evs) = u # draws evs"
| "draws (ev # evs) = draws evs"

text \<open>An event that can write the record of \<open>job_id\<close>.\<close>

fun targets :: "string \<Rightarrow> event \<Rightarrow> bool" where
  "targets job_id (Submit u data) = (u = job_id)"
| "targets job_id (Update (i, st, prog, res, err)) = (i = job_id)"
| "targets job_id (Poll i) = False"

section \<open>The vocabulary of the specification\<close>

text \<open>The phases of a job with the progress value of each, in the order of the specification.\<close>

definition phases :: "(string \<times> int) list" where
  "phases = [(''pending'', 0), (''geocoding'', 10), (''loading_theme'', 20),
             (''downloading'', 30), (''rendering'', 50), (''complete'', 100)]"

text \<open>The position of a status in that order; \<open>error\<close> comes after all of them.\<close>

definition rank :: "string \<Rightarrow> nat" where
  "rank s = (if s = ''error'' then 6 else length (takeWhile (\<lambda>q. fst q \<noteq> s) phases))"

text \<open>
  A permitted transition of (status, progress): to the next phase, or from a phase to
  \<open>error\<close> with the progress left as it was.
\<close>

definition permitted :: "string \<times> int \<Rightarrow> string \<times> int \<Rightarrow> bool" where
  "permitted a b =
     ((a, b) \<in> set (zip phases (tl phases)) \<or>
      (a \<in> set phases \<and> b = (''error'', snd a)))"

definition observe :: "string \<Rightarrow> jobs \<Rightarrow> (string \<times> int) option" where
  "observe job_id jobs =
     (case jobs job_id of None \<Rightarrow> None | Some j \<Rightarrow> Some (status j, progress j))"

text \<open>What polling \<open>job_id\<close> shows before the first of the calls \<open>cs\<close> and after each of them.\<close>

definition job_trace :: "string \<Rightarrow> jobs \<Rightarrow> call list \<Rightarrow> (string \<times> int) list" where
  "job_trace job_id jobs cs = List.map_filter (observe job_id) (states_after jobs cs)"

text \<open>A field of the request body that is absent or a str, and one that is blank.\<close>

definition absent_or_str :: "json \<Rightarrow> string \<Rightarrow> bool" where
  "absent_or_str data k =
     (case data of
        JObj kvs \<Rightarrow>
          (case map_of kvs k of None \<Rightarrow> True | Some (JStr s) \<Rightarrow> True | Some _ \<Rightarrow> False)
      | _ \<Rightarrow> False)"

definition blank :: "json \<Rightarrow> string \<Rightarrow> bool" where
  "blank data k =
     (case data of
        JObj kvs \<Rightarrow>
          (case map_of kvs k of
             None \<Rightarrow> True
           | Some (JStr s) \<Rightarrow> list_all is_space s
           | Some _ \<Rightarrow> False)
      | _ \<Rightarrow> False)"

section \<open>Concrete values for the examples\<close>

definition no_jobs :: jobs where
  "no_jobs = Map.empty"

text \<open>A parser of plain ASCII digit strings; on these it agrees with \<^verbatim>\<open>int(str)\<close>.\<close>

definition decimal :: "string \<Rightarrow> int option" where
  "decimal s =
     (if s \<noteq> [] \<and> list_all (\<lambda>c. 48 \<le> (of_char c :: nat) \<and> (of_char c :: nat) \<le> 57) s
      then Some (foldl (\<lambda>a c. 10 * a + (of_char c - 48)) 0 s) else None)"

definition demo_env :: pyenv where
  "demo_env = \<lparr>available_themes = [''feature_based'', ''noir''], int_of_str = decimal,
               str_of_other = (\<lambda>v. ''None'')\<rparr>"

definition ok_poster :: "(unit, string) poster" where
  "ok_poster =
     \<lparr>get_coordinates = (\<lambda>c k. Inr ()),
      load_theme = (\<lambda>t. Inr t),
      generate_output_filename = (\<lambda>c t. Inr (''posters/'' @ c @ ''_'' @ t @ ''.png'')),
      create_poster = (\<lambda>th c k co d f n. Inr ())\<rparr>"

text \<open>A collaborator whose rendering call raises an exception with the given message.\<close>

definition raising_poster :: "string \<Rightarrow> (unit, string) poster" where
  "raising_poster msg = ok_poster\<lparr>create_poster := (\<lambda>th c k co d f n. Inl msg)\<rparr>"

definition demo_job :: job where
  "demo_job = new_job ''Paris'' ''France'' ''noir'' 5000 None"

definition demo_jobs :: jobs where
  "demo_jobs = no_jobs(''job-1'' \<mapsto> demo_job)"

definition demo_request :: json where
  "demo_request =
     JObj [(''city'', JStr '' Paris''), (''country'', JStr ''France''), (''theme'', JStr ''noir''),
           (''distance'', JStr ''5000'')]"

section \<open>Properties of the job store\<close>

lemma update_job_status_Some:
  "jobs job_id = Some j \<Longrightarrow>
   update_job_status jobs job_id st prog res err =
     jobs(job_id \<mapsto>
       j\<lparr>status := st,
         progress := (case prog of None \<Rightarrow> progress j | Some p \<Rightarrow> p),
         result := (case res of None \<Rightarrow> result j | Some r \<Rightarrow> Some r),
         error := (case err of None \<Rightarrow> error j | Some e \<Rightarrow> Some e)\<rparr>)"
  by (simp add: update_job_status_def)

lemma update_job_status_other:
  "i \<noteq> job_id \<Longrightarrow> update_job_status jobs job_id st prog res err i = jobs i"
  by (simp add: update_job_status_def split: option.splits)

lemma dom_update_job_status: "dom (update_job_status jobs job_id st prog res err) = dom jobs"
  by (auto simp: update_job_status_def split: option.splits if_splits)

text \<open>
  Claim C9. For a job id that is not in the store, \<open>update_job_status\<close> with any status,
  progress, result and error returns the store as it was: the update is dropped, no record
  is created, and nothing is raised (the function is total).
\<close>

theorem update_job_status_absent:
  "jobs job_id = None \<Longrightarrow> update_job_status jobs job_id st prog res err = jobs"
  by (simp add: update_job_status_def)

theorem update_job_status_absent_witness:
  "demo_jobs ''job-2'' = None \<and>
   update_job_status demo_jobs ''job-2'' ''complete'' (Some 100) (Some ''a.png'') (Some ''boom'')
     = demo_jobs"
proof -
  have h: "demo_jobs ''job-2'' = None"
    by (simp add: demo_jobs_def no_jobs_def)
  from update_job_status_absent [of demo_jobs "''job-2''", OF h] h show ?thesis by simp
qed

section \<open>Properties of the generation worker\<close>

lemma states_after_nonempty: "states_after jobs cs \<noteq> []"
  by (cases cs) auto

lemma last_states_after: "last (states_after jobs cs) = foldl apply_call jobs cs"
  by (induction cs arbitrary: jobs) (auto simp: states_after_nonempty)

lemma try_body_cases:
  "(\<exists>e. try_body p i c k t d n = ([(i, ''geocoding'', Some 10, None, None)], Inl e)) \<or>
   (\<exists>e. try_body p i c k t d n =
      ([(i, ''geocoding'', Some 10, None, None), (i, ''loading_theme'', Some 20, None, None)], Inl e)) \<or>
   (\<exists>e. try_body p i c k t d n =
      ([(i, ''geocoding'', Some 10, None, None), (i, ''loading_theme'', Some 20, None, None),
        (i, ''downloading'', Some 30, None, None)], Inl e)) \<or>
   (\<exists>e. try_body p i c k t d n =
      ([(i, ''geocoding'', Some 10, None, None), (i, ''loading_theme'', Some 20, None, None),
        (i, ''downloading'', Some 30, None, None), (i, ''rendering'', Some 50, None, None)], Inl e)) \<or>
   (\<exists>f. generate_output_filename p (filename_city c n) t = Inr f \<and>
        try_body p i c k t d n =
      ([(i, ''geocoding'', Some 10, None, None), (i, ''loading_theme'', Some 20, None, None),
        (i, ''downloading'', Some 30, None, None), (i, ''rendering'', Some 50, None, None),
        (i, ''complete'', Some 100, Some (basename f), None)], Inr ()))"
  by (simp add: try_body_def Let_def split: sum.splits)

lemma job_trace_Cons:
  "jobs job_id = Some j \<Longrightarrow>
   job_trace job_id jobs ((job_id, st, prog, res, err) # cs) =
     (status j, progress j) #
     job_trace job_id
       (jobs(job_id \<mapsto>
          j\<lparr>status := st,
            progress := (case prog of None \<Rightarrow> progress j | Some p \<Rightarrow> p),
            result := (case res of None \<Rightarrow> result j | Some r \<Rightarrow> Some r),
            error := (case err of None \<Rightarrow> error j | Some e \<Rightarrow> Some e)\<rparr>)) cs"
  by (simp add: job_trace_def observe_def update_job_status_Some)

lemma job_trace_Nil:
  "jobs job_id = Some j \<Longrightarrow> job_trace job_id jobs [] = [(status j, progress j)]"
  by (simp add: job_trace_def observe_def)

lemma trace_cases:
  assumes "jobs job_id = Some j" "status j = ''pending''" "progress j = 0"
  shows "job_trace job_id jobs (run_generation_calls p job_id c k t d n) \<in>
     {phases,
      take 5 phases @ [(''error'', 50)],
      take 4 phases @ [(''error'', 30)],
      take 3 phases @ [(''error'', 20)],
      take 2 phases @ [(''error'', 10)]}"
  using try_body_cases [of p job_id c k t d n] assms
  by (elim disjE exE conjE) (simp_all add: run_generation_calls_def job_trace_Cons job_trace_Nil phases_def)

lemma traces_permitted:
  assumes "tr \<in> {phases,
      take 5 phases @ [(''error'', 50)],
      take 4 phases @ [(''error'', 30)],
      take 3 phases @ [(''error'', 20)],
      take 2 phases @ [(''error'', 10)]}"
  shows "successively permitted tr" and "sorted_wrt (<) (map (rank \<circ> fst) tr)"
  using assms by (auto simp: phases_def permitted_def rank_def)

text \<open>
  Claim C1. For a job in the store with status \<open>pending\<close> and progress 0 (as \<open>generate\<close>
  creates it), polling during its worker's run shows the phases pending, geocoding,
  loading_theme, downloading, rendering, complete in this order with progress 0, 10, 20, 30,
  50, 100, or an initial part of them that reaches at least geocoding, followed by \<open>error\<close>
  with the progress of the last phase reached. Every step is to the next phase or from a
  phase to \<open>error\<close>, the rank of the status strictly increases, and nothing follows
  \<open>error\<close> or \<open>complete\<close>.
\<close>

theorem run_generation_status_sequence:
  assumes "jobs job_id = Some j" and "status j = ''pending''" and "progress j = 0"
  shows "job_trace job_id jobs (run_generation_calls p job_id c k t d n) \<in>
           {phases,
            take 5 phases @ [(''error'', 50)],
            take 4 phases @ [(''error'', 30)],
            take 3 phases @ [(''error'', 20)],
            take 2 phases @ [(''error'', 10)]} \<and>
         successively permitted (job_trace job_id jobs (run_generation_calls p job_id c k t d n)) \<and>
         sorted_wrt (<) (map (rank \<circ> fst)
           (job_trace job_id jobs (run_generation_calls p job_id c k t d n)))"
  using trace_cases [of jobs job_id j, OF assms] traces_permitted by blast

theorem run_generation_status_sequence_witness:
  "demo_jobs ''job-1'' = Some demo_job \<and> status demo_job = ''pending'' \<and> progress demo_job = 0 \<and>
   job_trace ''job-1'' demo_jobs
     (run_generation_calls (raising_poster ''no tiles'') ''job-1'' ''Paris'' ''France'' ''noir'' 5000 None)
     = [(''pending'', 0), (''geocoding'', 10), (''loading_theme'', 20), (''downloading'', 30),
        (''rendering'', 50), (''error'', 50)] \<and>
   successively permitted (job_trace ''job-1'' demo_jobs
     (run_generation_calls (raising_poster ''no tiles'') ''job-1'' ''Paris'' ''France'' ''noir'' 5000 None))"
proof -
  have h1: "demo_jobs ''job-1'' = Some demo_job" by (simp add: demo_jobs_def)
  have h2: "status demo_job = ''pending''" by (simp add: demo_job_def new_job_def)
  have h3: "progress demo_job = 0" by (simp add: demo_job_def new_job_def)
  have tr: "job_trace ''job-1'' demo_jobs
     (run_generation_calls (raising_poster ''no tiles'') ''job-1'' ''Paris'' ''France'' ''noir'' 5000 None)
     = [(''pending'', 0), (''geocoding'', 10), (''loading_theme'', 20), (''downloading'', 30),
        (''rendering'', 50), (''error'', 50)]"
    by (simp add: run_generation_calls_def try_body_def raising_poster_def ok_poster_def
        job_trace_Cons job_trace_Nil h1 h2 h3)
  from run_generation_status_sequence [of demo_jobs "''job-1''" demo_job
      "raising_poster ''no tiles''" "''Paris''" "''France''" "''noir''" 5000 None, OF h1 h2 h3]
    h1 h2 h3 tr
  show ?thesis by simp
qed

lemma basename_nonempty: "f \<noteq> [] \<Longrightarrow> last f \<noteq> CHR ''/'' \<Longrightarrow> basename f \<noteq> []"
  by (cases f rule: rev_cases) (simp_all add: basename_def)

lemma run_generation_raised:
  assumes "jobs job_id = Some j" and "snd (try_body p job_id c k t d n) = Inl msg"
  shows "\<exists>jm jf.
           foldl apply_call jobs (fst (try_body p job_id c k t d n)) job_id = Some jm \<and>
           run_generation p jobs job_id c k t d n job_id = Some jf \<and>
           progress jm \<in> {10, 20, 30, 50} \<and> result jm = result j \<and> error jm = error j \<and>
           status jf = ''error'' \<and> progress jf = progress jm \<and> result jf = result j \<and>
           error jf = Some msg \<and> params jf = params j \<and>
           last (run_generation_calls p job_id c k t d n) = (job_id, ''error'', None, None, Some msg)"
  using try_body_cases [of p job_id c k t d n] assms
  by (elim disjE exE conjE)
     (simp_all add: run_generation_def run_generation_calls_def update_job_status_def)

lemma run_generation_returned:
  assumes "jobs job_id = Some j" and "snd (try_body p job_id c k t d n) = Inr ()"
  shows "\<exists>f jf.
           generate_output_filename p (filename_city c n) t = Inr f \<and>
           run_generation p jobs job_id c k t d n job_id = Some jf \<and>
           status jf = ''complete'' \<and> progress jf = 100 \<and> result jf = Some (basename f) \<and>
           error jf = error j \<and> params jf = params j \<and>
           last (run_generation_calls p job_id c k t d n) =
             (job_id, ''complete'', Some 100, Some (basename f), None)"
  using try_body_cases [of p job_id c k t d n] assms
  by (elim disjE exE conjE)
     (simp_all add: run_generation_def run_generation_calls_def update_job_status_def)

text \<open>
  Claim C10. For a job in the store, \<open>update_job_status\<close> sets the status and leaves each
  of progress, result and error as it was when the corresponding argument is \<open>None\<close>; it
  never changes the stored params. In particular, when the worker's \<^verbatim>\<open>try\<close> block raises,
  the job ends with status \<open>error\<close>, the progress of the last phase it reached (one of 10,
  20, 30, 50) and the result it had before.
\<close>

theorem update_job_status_frame:
  assumes "jobs job_id = Some j"
  shows "(\<exists>j'. update_job_status jobs job_id st prog res err job_id = Some j' \<and>
            status j' = st \<and>
            (prog = None \<longrightarrow> progress j' = progress j) \<and>
            (res = None \<longrightarrow> result j' = result j) \<and>
            (err = None \<longrightarrow> error j' = error j) \<and>
            params j' = params j) \<and>
         (snd (try_body p job_id c k t d n) = Inl msg \<longrightarrow>
            (\<exists>jm jf.
               foldl apply_call jobs (fst (try_body p job_id c k t d n)) job_id = Some jm \<and>
               run_generation p jobs job_id c k t d n job_id = Some jf \<and>
               status jf = ''error'' \<and> progress jf = progress jm \<and>
               progress jf \<in> {10, 20, 30, 50} \<and> result jf = result j \<and> params jf = params j))"
proof (intro conjI impI)
  show "\<exists>j'. update_job_status jobs job_id st prog res err job_id = Some j' \<and>
            status j' = st \<and>
            (prog = None \<longrightarrow> progress j' = progress j) \<and>
            (res = None \<longrightarrow> result j' = result j) \<and>
            (err = None \<longrightarrow> error j' = error j) \<and>
            params j' = params j"
    using assms by (simp add: update_job_status_def)
next
  assume "snd (try_body p job_id c k t d n) = Inl msg"
  from run_generation_raised [of jobs job_id j, OF assms this]
  obtain jm jf where
    "foldl apply_call jobs (fst (try_body p job_id c k t d n)) job_id = Some jm"
    "run_generation p jobs job_id c k t d n job_id = Some jf"
    "progress jm \<in> {10, 20, 30, 50}" "status jf = ''error''" "progress jf = progress jm"
    "result jf = result j" "params jf = params j"
    by blast
  then show "\<exists>jm jf.
               foldl apply_call jobs (fst (try_body p job_id c k t d n)) job_id = Some jm \<and>
               run_generation p jobs job_id c k t d n job_id = Some jf \<and>
               status jf = ''error'' \<and> progress jf = progress jm \<and>
               progress jf \<in> {10, 20, 30, 50} \<and> result jf = result j \<and> params jf = params j"
    by simp
qed

lemma demo_raise: "snd (try_body (raising_poster msg) ''job-1'' ''Paris'' ''France'' ''noir'' 5000 None) = Inl msg"
  by (simp add: try_body_def raising_poster_def ok_poster_def)

theorem update_job_status_frame_witness:
  "demo_jobs ''job-1'' = Some demo_job \<and>
   snd (try_body (raising_poster ''no tiles'') ''job-1'' ''Paris'' ''France'' ''noir'' 5000 None)
     = Inl ''no tiles'' \<and>
   (\<exists>j'. update_job_status demo_jobs ''job-1'' ''error'' None None None ''job-1'' = Some j' \<and>
         progress j' = progress demo_job \<and> result j' = result demo_job \<and>
         error j' = error demo_job \<and> params j' = params demo_job) \<and>
   (\<exists>jf. run_generation (raising_poster ''no tiles'') demo_jobs ''job-1'' ''Paris'' ''France''
            ''noir'' 5000 None ''job-1'' = Some jf \<and>
         status jf = ''error'' \<and> progress jf \<in> {10, 20, 30, 50} \<and> result jf = None)"
proof -
  have h1: "demo_jobs ''job-1'' = Some demo_job" by (simp add: demo_jobs_def)
  have h2: "snd (try_body (raising_poster ''no tiles'') ''job-1'' ''Paris'' ''France'' ''noir'' 5000 None)
     = Inl ''no tiles''" by (rule demo_raise)
  have h3: "result demo_job = None" by (simp add: demo_job_def new_job_def)
  from update_job_status_frame [of demo_jobs "''job-1''" demo_job "''error''" None None None
      "raising_poster ''no tiles''" "''Paris''" "''France''" "''noir''" 5000 None "''no tiles''", OF h1]
    h1 h2 h3
  show ?thesis by auto
qed

section \<open>Properties of the request handlers\<close>

lemma py_strip_empty_iff: "py_strip s = [] \<longleftrightarrow> list_all is_space s"
proof
  assume "py_strip s = []"
  then have a: "\<forall>x \<in> set (dropWhile is_space s). is_space x"
    by (simp add: py_strip_def)
  show "list_all is_space s"
  proof (cases "dropWhile is_space s")
    case Nil
    then show ?thesis by (simp add: list_all_iff)
  next
    case (Cons x xs)
    then have "\<not> is_space x" using hd_dropWhile [of is_space s] by force
    with a Cons show ?thesis by simp
  qed
next
  assume "list_all is_space s"
  then have d: "dropWhile is_space s = []" by (simp add: list_all_iff)
  show "py_strip s = []" by (simp only: py_strip_def d rev.simps dropWhile.simps)
qed

lemma get_strip_field:
  "absent_or_str data k \<Longrightarrow>
   \<exists>s. bind (dict_get data k (JStr [])) strip = Inr s \<and> (s = [] \<longleftrightarrow> blank data k)"
  by (auto simp: absent_or_str_def blank_def dict_get_def strip_def py_strip_empty_iff
      split: json.splits option.splits)

lemma get_strip_raises:
  "bind (dict_get data k (JStr [])) strip = Inl e \<Longrightarrow> e = AttributeError"
  by (auto simp: dict_get_def strip_def split: json.splits)

lemma generate_cases:
  "(\<exists>e. generate env u data jobs = Inl e \<and> e \<noteq> ValueError) \<or>
   (\<exists>msg. generate env u data jobs = Inr ((ErrorBody msg, 400), jobs, None)) \<or>
   (\<exists>c k t d n. generate env u data jobs =
       Inr ((JobIdBody u, 200), jobs(u \<mapsto> new_job c k t d n), Some (u, c, k, t, d, n)))"
proof (cases "bind (dict_get data ''city'' (JStr [])) strip")
  case (Inl e)
  then have "generate env u data jobs = Inl e" by (simp add: generate_def)
  with get_strip_raises [OF Inl] show ?thesis by simp
next
  case c: (Inr c)
  show ?thesis
  proof (cases "bind (dict_get data ''country'' (JStr [])) strip")
    case (Inl e)
    then have "generate env u data jobs = Inl e" by (simp add: generate_def c)
    with get_strip_raises [OF Inl] show ?thesis by simp
  next
    case k: (Inr k)
    obtain kvs where data: "data = JObj kvs"
      using c by (cases data) (simp_all add: dict_get_def)
    show ?thesis
    proof (cases "c = [] \<or> k = []")
      case True
      then show ?thesis unfolding generate_def c k by auto
    next
      case False
      show ?thesis
      proof (cases "bind (dict_get data ''display_name'' (JStr [])) strip")
        case (Inl e)
        then have "generate env u data jobs = Inl e" using False c k
          unfolding generate_def data by (simp add: dict_get_def)
        with get_strip_raises [OF Inl] show ?thesis by simp
      next
        case n: (Inr n)
        show ?thesis using False c k n
          unfolding generate_def data
          by (simp add: dict_get_def Let_def split: option.splits sum.splits py_error.splits)
      qed
    qed
  qed
qed

lemma generate_other:
  "generate env u data jobs = Inr (r, jobs', th) \<Longrightarrow> i \<noteq> u \<Longrightarrow> jobs' i = jobs i"
  using generate_cases [of env u data jobs] by auto

lemma generate_dom:
  "generate env u data jobs = Inr (r, jobs', th) \<Longrightarrow> dom jobs \<subseteq> dom jobs'"
  using generate_cases [of env u data jobs] by auto

lemma step_frame: "\<not> targets job_id ev \<Longrightarrow> step env jobs ev job_id = jobs job_id"
proof (cases ev)
  case (Submit u data)
  assume "\<not> targets job_id ev"
  with Submit have "job_id \<noteq> u" by simp
  then show ?thesis using Submit generate_other [of env u data jobs _ _ _ job_id]
    by (auto split: sum.splits)
next
  case (Update c)
  assume "\<not> targets job_id ev"
  with Update show ?thesis
    by (cases c) (simp add: update_job_status_other)
next
  case (Poll i)
  then show ?thesis by simp
qed

lemma foldl_step_frame:
  "\<forall>ev \<in> set evs. \<not> targets job_id ev \<Longrightarrow> foldl (step env) jobs evs job_id = jobs job_id"
  by (induction evs arbitrary: jobs) (simp_all add: step_frame)

lemma step_dom: "dom jobs \<subseteq> dom (step env jobs ev)"
proof (cases ev)
  case (Submit u data)
  then show ?thesis using generate_dom [of env u data jobs]
    by (auto split: sum.splits)
next
  case (Update c)
  then show ?thesis by (cases c) (simp add: dom_update_job_status)
next
  case (Poll i)
  then show ?thesis by simp
qed

lemma foldl_step_dom: "dom jobs \<subseteq> dom (foldl (step env) jobs evs)"
proof (induction evs arbitrary: jobs)
  case Nil
  then show ?case by simp
next
  case (Cons ev evs)
  have "dom jobs \<subseteq> dom (step env jobs ev)" by (rule step_dom)
  also have "\<dots> \<subseteq> dom (foldl (step env) (step env jobs ev) evs)" by (rule Cons.IH)
  finally show ?case by simp
qed

section \<open>How a worker run ends\<close>

text \<open>
  Claim C3 as first stated asks for a non-empty error message. The handler stores
  \<^verbatim>\<open>str(e)\<close> whatever it is: when the rendering call raises an exception whose message is
  the empty str (as \<^verbatim>\<open>MemoryError()\<close> or a bare \<^verbatim>\<open>assert\<close> does), a status query shows
  status \<open>error\<close> with the error field set to the empty str.
\<close>

theorem run_generation_empty_message_counterexample:
  "demo_jobs ''job-1'' = Some demo_job \<and>
   snd (try_body (raising_poster '''') ''job-1'' ''Paris'' ''France'' ''noir'' 5000 None) = Inl '''' \<and>
   get_status
     (run_generation (raising_poster '''') demo_jobs ''job-1'' ''Paris'' ''France'' ''noir'' 5000 None)
     ''job-1''
   = (JobBody (demo_job\<lparr>status := ''error'', progress := 50, error := Some ''''\<rparr>), 200)"
  by (simp add: demo_raise demo_jobs_def run_generation_def run_generation_calls_def try_body_def
      raising_poster_def ok_poster_def update_job_status_def get_status_def)

text \<open>
  Claim C3, amended. For a job in the store with no result yet, when an exception with
  message \<open>msg\<close> leaves the \<^verbatim>\<open>try\<close> block at any phase, the worker's last call sets the
  status \<open>error\<close>; the job then has status \<open>error\<close>, the error field holds exactly
  \<open>msg\<close> (which may be empty), and the result is still \<open>None\<close>. The worker itself
  returns normally (\<open>run_generation\<close> yields a store, not an exception), and a status query
  answers 200 with that record.
\<close>

theorem run_generation_error:
  assumes "jobs job_id = Some j" and "result j = None"
    and "snd (try_body p job_id c k t d n) = Inl msg"
  shows "\<exists>jf. run_generation p jobs job_id c k t d n job_id = Some jf \<and>
           status jf = ''error'' \<and> error jf = Some msg \<and> result jf = None \<and>
           last (run_generation_calls p job_id c k t d n) =
             (job_id, ''error'', None, None, Some msg) \<and>
           get_status (run_generation p jobs job_id c k t d n) job_id = (JobBody jf, 200)"
proof -
  from run_generation_raised [of jobs job_id j, OF assms(1) assms(3)]
  obtain jf where
    "run_generation p jobs job_id c k t d n job_id = Some jf" "status jf = ''error''"
    "error jf = Some msg" "result jf = result j"
    "last (run_generation_calls p job_id c k t d n) = (job_id, ''error'', None, None, Some msg)"
    by blast
  with assms(2) show ?thesis by (simp add: get_status_def)
qed

theorem run_generation_error_witness:
  "demo_jobs ''job-1'' = Some demo_job \<and> result demo_job = None \<and>
   snd (try_body (raising_poster ''no tiles'') ''job-1'' ''Paris'' ''France'' ''noir'' 5000 None)
     = Inl ''no tiles'' \<and>
   (\<exists>jf. get_status
      (run_generation (raising_poster ''no tiles'') demo_jobs ''job-1'' ''Paris'' ''France''
         ''noir'' 5000 None) ''job-1'' = (JobBody jf, 200) \<and>
      status jf = ''error'' \<and> error jf = Some ''no tiles'' \<and> result jf = None)"
proof -
  have h1: "demo_jobs ''job-1'' = Some demo_job" by (simp add: demo_jobs_def)
  have h2: "result demo_job = None" by (simp add: demo_job_def new_job_def)
  have h3: "snd (try_body (raising_poster ''no tiles'') ''job-1'' ''Paris'' ''France'' ''noir'' 5000 None)
     = Inl ''no tiles''" by (rule demo_raise)
  from run_generation_error [of demo_jobs "''job-1''" demo_job "raising_poster ''no tiles''"
      "''Paris''" "''France''" "''noir''" 5000 None "''no tiles''", OF h1 h2 h3] h1 h2 h3
  show ?thesis by auto
qed

text \<open>
  Claim C4. For a job in the store whose worker runs all five phases without a raise, where
  the collaborator's output filename names a file (it is not empty and does not end in a
  slash), the job ends with status \<open>complete\<close>, progress 100 and a non-empty result equal
  to the basename of that output filename. The \<open>complete\<close> call is the worker's last, and
  no later event of the server other than a write aimed at this very job id changes
  the record.
\<close>

theorem run_generation_complete:
  assumes "jobs job_id = Some j"
    and "snd (try_body p job_id c k t d n) = Inr ()"
    and "\<forall>f. generate_output_filename p (filename_city c n) t = Inr f \<longrightarrow>
             f \<noteq> [] \<and> last f \<noteq> CHR ''/''"
  shows "\<exists>f jf. generate_output_filename p (filename_city c n) t = Inr f \<and>
           run_generation p jobs job_id c k t d n job_id = Some jf \<and>
           status jf = ''complete'' \<and> progress jf = 100 \<and>
           result jf = Some (basename f) \<and> basename f \<noteq> [] \<and>
           last (run_generation_calls p job_id c k t d n) =
             (job_id, ''complete'', Some 100, Some (basename f), None) \<and>
           (\<forall>evs. (\<forall>ev \<in> set evs. \<not> targets job_id ev) \<longrightarrow>
              foldl (step env) (run_generation p jobs job_id c k t d n) evs job_id = Some jf)"
proof -
  from run_generation_returned [of jobs job_id j, OF assms(1) assms(2)]
  obtain f jf where f: "generate_output_filename p (filename_city c n) t = Inr f"
    and jf: "run_generation p jobs job_id c k t d n job_id = Some jf"
      "status jf = ''complete''" "progress jf = 100" "result jf = Some (basename f)"
      "last (run_generation_calls p job_id c k t d n) =
         (job_id, ''complete'', Some 100, Some (basename f), None)"
    by blast
  from assms(3) f have "basename f \<noteq> []" by (simp add: basename_nonempty)
  moreover have "\<forall>evs. (\<forall>ev \<in> set evs. \<not> targets job_id ev) \<longrightarrow>
      foldl (step env) (run_generation p jobs job_id c k t d n) evs job_id = Some jf"
    using jf(1) by (simp add: foldl_step_frame)
  ultimately show ?thesis using f jf by blast
qed

lemma demo_return:
  "try_body ok_poster ''job-1'' ''Paris'' ''France'' ''noir'' 5000 None =
     ([(''job-1'', ''geocoding'', Some 10, None, None),
       (''job-1'', ''loading_theme'', Some 20, None, None),
       (''job-1'', ''downloading'', Some 30, None, None),
       (''job-1'', ''rendering'', Some 50, None, None),
       (''job-1'', ''complete'', Some 100, Some ''Paris_noir.png'', None)], Inr ())"
  by (simp add: try_body_def ok_poster_def filename_city_def basename_def)

theorem run_generation_complete_witness:
  "demo_jobs ''job-1'' = Some demo_job \<and>
   snd (try_body ok_poster ''job-1'' ''Paris'' ''France'' ''noir'' 5000 None) = Inr () \<and>
   generate_output_filename ok_poster (filename_city ''Paris'' None) ''noir''
     = Inr ''posters/Paris_noir.png'' \<and>
   (\<exists>jf. foldl (step demo_env)
           (run_generation ok_poster demo_jobs ''job-1'' ''Paris'' ''France'' ''noir'' 5000 None)
           [Poll ''job-1'', Update (''job-2'', ''error'', None, None, Some ''x'')] ''job-1''
         = Some jf \<and>
         status jf = ''complete'' \<and> progress jf = 100 \<and> result jf = Some ''Paris_noir.png'')"
proof -
  have h1: "demo_jobs ''job-1'' = Some demo_job" by (simp add: demo_jobs_def)
  have h2: "snd (try_body ok_poster ''job-1'' ''Paris'' ''France'' ''noir'' 5000 None) = Inr ()"
    by (simp add: demo_return)
  have g: "generate_output_filename ok_poster (filename_city ''Paris'' None) ''noir''
             = Inr ''posters/Paris_noir.png''"
    by (simp add: ok_poster_def filename_city_def)
  have h3: "\<forall>f. generate_output_filename ok_poster (filename_city ''Paris'' None) ''noir'' = Inr f \<longrightarrow>
        f \<noteq> [] \<and> last f \<noteq> CHR ''/''"
    by (auto simp: g)
  have h4: "\<forall>ev \<in> set [Poll ''job-1'', Update (''job-2'', ''error'', None, None, Some ''x'')].
        \<not> targets ''job-1'' ev"
    by simp
  have b: "basename ''posters/Paris_noir.png'' = ''Paris_noir.png''"
    by (simp add: basename_def)
  from run_generation_complete [of demo_jobs "''job-1''" demo_job ok_poster "''Paris''" "''France''"
      "''noir''" 5000 None demo_env, OF h1 h2 h3]
  obtain f jf where f: "generate_output_filename ok_poster (filename_city ''Paris'' None) ''noir'' = Inr f"
    and jf: "status jf = ''complete''" "progress jf = 100" "result jf = Some (basename f)"
    and fr: "\<forall>evs. (\<forall>ev \<in> set evs. \<not> targets ''job-1'' ev) \<longrightarrow>
              foldl (step demo_env)
                (run_generation ok_poster demo_jobs ''job-1'' ''Paris'' ''France'' ''noir'' 5000 None)
                evs ''job-1'' = Some jf"
    by blast
  from f g have "f = ''posters/Paris_noir.png''" by simp
  with jf b have r: "result jf = Some ''Paris_noir.png''" by simp
  from fr h4 have "foldl (step demo_env)
           (run_generation ok_poster demo_jobs ''job-1'' ''Paris'' ''France'' ''noir'' 5000 None)
           [Poll ''job-1'', Update (''job-2'', ''error'', None, None, Some ''x'')] ''job-1''
         = Some jf"
    by blast
  with jf r have "\<exists>jf. foldl (step demo_env)
           (run_generation ok_poster demo_jobs ''job-1'' ''Paris'' ''France'' ''noir'' 5000 None)
           [Poll ''job-1'', Update (''job-2'', ''error'', None, None, Some ''x'')] ''job-1''
         = Some jf \<and>
         status jf = ''complete'' \<and> progress jf = 100 \<and> result jf = Some ''Paris_noir.png''"
    by blast
  with h1 h2 g show ?thesis by blast
qed

section \<open>Status queries\<close>

text \<open>
  Claim C8. A status query for an id that is not in the store answers 404 with the body
  \<open>Job not found\<close>. For an id in the store it answers 200 with the whole record as it is
  stored at that moment. Each call of \<open>update_job_status\<close> and each query is one step under
  the lock, so a snapshot shows all fields of an update or none of them: after an update
  of all four fields the query returns the record with all four written.
\<close>

theorem get_status_snapshot:
  "(jobs job_id = None \<longrightarrow> get_status jobs job_id = (ErrorBody ''Job not found'', 404)) \<and>
   (jobs i = Some j \<longrightarrow>
      get_status jobs i = (JobBody j, 200) \<and>
      get_status (update_job_status jobs i st (Some p) (Some r) (Some e)) i =
        (JobBody (j\<lparr>status := st, progress := p, result := Some r, error := Some e\<rparr>), 200))"
  by (simp add: get_status_def update_job_status_def)

theorem get_status_snapshot_witness:
  "demo_jobs ''job-2'' = None \<and> demo_jobs ''job-1'' = Some demo_job \<and>
   get_status demo_jobs ''job-2'' = (ErrorBody ''Job not found'', 404) \<and>
   get_status demo_jobs ''job-1'' = (JobBody demo_job, 200)"
proof -
  have h1: "demo_jobs ''job-2'' = None" by (simp add: demo_jobs_def no_jobs_def)
  have h2: "demo_jobs ''job-1'' = Some demo_job" by (simp add: demo_jobs_def)
  from get_status_snapshot [of demo_jobs "''job-2''" "''job-1''" demo_job "''x''" 0 "''r''" "''e''"]
    h1 h2
  show ?thesis by simp
qed

section \<open>Validation of a submission\<close>

lemma generate_after_fields:
  assumes "bind (dict_get data ''city'' (JStr [])) strip = Inr c"
    and "bind (dict_get data ''country'' (JStr [])) strip = Inr k"
    and "c \<noteq> []" and "k \<noteq> []"
    and "bind (dict_get data ''display_name'' (JStr [])) strip = Inr dn"
    and "dict_get data ''theme'' (JStr ''feature_based'') = Inr tv"
    and "dict_get data ''distance'' (JInt 10000) = Inr dv"
  shows "generate env u data jobs =
     (case theme_member tv (available_themes env) of
        None \<Rightarrow> Inr ((ErrorBody (theme_not_found env tv), 400), jobs, None)
      | Some th \<Rightarrow>
         (case py_int (int_of_str env) dv of
            Inl ValueError \<Rightarrow> Inr ((ErrorBody ''Invalid distance value'', 400), jobs, None)
          | Inl e \<Rightarrow> Inl e
          | Inr d \<Rightarrow>
              if d < 1000 \<or> d > 50000
              then Inr ((ErrorBody ''Distance must be between 1000 and 50000 meters'', 400),
                        jobs, None)
              else Inr ((JobIdBody u, 200),
                        jobs(u \<mapsto> new_job c k th d (if dn = [] then None else Some dn)),
                        Some (u, c, k, th, d, if dn = [] then None else Some dn))))"
  unfolding generate_def assms(1,2,5,6,7) using assms(3,4)
  by (simp add: Let_def split: option.splits sum.splits py_error.splits)

lemma dict_get_obj: "dict_get (JObj kvs) k d = Inr (case map_of kvs k of None \<Rightarrow> d | Some v \<Rightarrow> v)"
  by (simp add: dict_get_def)

lemma absent_or_str_obj: "absent_or_str data k \<Longrightarrow> \<exists>kvs. data = JObj kvs"
  by (cases data) (simp_all add: absent_or_str_def)

lemma format_in_message: "sublist (format_value env v) (theme_not_found env v)"
  unfolding theme_not_found_def
  using sublist_appendI [of "format_value env v" "''Theme '' @ [CHR 0x27]" "[CHR 0x27] @ '' not found''"]
  by simp

text \<open>
  Claim C5 as first stated covers every request with a blank city or country. The handler
  calls \<^verbatim>\<open>.strip()\<close> on both fields before it tests either: with a blank city and a country
  that is the number 5, \<^verbatim>\<open>AttributeError\<close> leaves the handler and no 400 is returned.
\<close>

theorem generate_blank_city_counterexample:
  "blank (JObj [(''city'', JStr '' ''), (''country'', JInt 5)]) ''city'' \<and>
   generate demo_env ''u1'' (JObj [(''city'', JStr '' ''), (''country'', JInt 5)]) no_jobs
     = Inl AttributeError"
  by (simp add: blank_def is_space_def generate_def dict_get_def strip_def py_strip_def)

text \<open>
  Claim C5, amended. For every request whose body is a JSON object in which city and
  country are each absent or a str, and at least one of the two is absent, empty or made
  of whitespace only, the handler answers 400 with the message
  \<open>City and country are required\<close>, returns the store as it was, and starts no thread.
\<close>

theorem generate_blank_field:
  assumes "absent_or_str data ''city''" and "absent_or_str data ''country''"
    and "blank data ''city'' \<or> blank data ''country''"
  shows "generate env u data jobs =
           Inr ((ErrorBody ''City and country are required'', 400), jobs, None)"
proof -
  obtain c where c: "bind (dict_get data ''city'' (JStr [])) strip = Inr c"
      "c = [] \<longleftrightarrow> blank data ''city''"
    using get_strip_field [OF assms(1)] by blast
  obtain k where k: "bind (dict_get data ''country'' (JStr [])) strip = Inr k"
      "k = [] \<longleftrightarrow> blank data ''country''"
    using get_strip_field [OF assms(2)] by blast
  from assms(3) c(2) k(2) have "c = [] \<or> k = []" by blast
  then show ?thesis
    unfolding generate_def c(1) k(1) by auto
qed

theorem generate_blank_field_witness:
  "absent_or_str (JObj [(''city'', JStr ''Paris''), (''country'', JStr [CHR 0x09, CHR '' ''])]) ''city'' \<and>
   absent_or_str (JObj [(''city'', JStr ''Paris''), (''country'', JStr [CHR 0x09, CHR '' ''])]) ''country'' \<and>
   blank (JObj [(''city'', JStr ''Paris''), (''country'', JStr [CHR 0x09, CHR '' ''])]) ''country'' \<and>
   generate demo_env ''u1''
     (JObj [(''city'', JStr ''Paris''), (''country'', JStr [CHR 0x09, CHR '' ''])]) demo_jobs
     = Inr ((ErrorBody ''City and country are required'', 400), demo_jobs, None)"
proof -
  let ?d = "JObj [(''city'', JStr ''Paris''), (''country'', JStr [CHR 0x09, CHR '' ''])]"
  have h1: "absent_or_str ?d ''city''" by (simp add: absent_or_str_def)
  have h2: "absent_or_str ?d ''country''" by (simp add: absent_or_str_def)
  have h3: "blank ?d ''country''" by (simp add: blank_def is_space_def)
  from h3 have h3': "blank ?d ''city'' \<or> blank ?d ''country''" by simp
  from generate_blank_field [of ?d demo_env "''u1''" demo_jobs, OF h1 h2 h3'] h1 h2 h3
  show ?thesis by simp
qed

text \<open>
  Claim C7 as first stated covers every request with an unknown theme id. The required
  fields are checked first: with an empty city and the unknown theme \<open>nope\<close> the answer
  is 400 with \<open>City and country are required\<close>, a message that does not contain the
  theme id.
\<close>

theorem generate_unknown_theme_counterexample:
  "theme_member (JStr ''nope'') (available_themes demo_env) = None \<and>
   generate demo_env ''u1''
     (JObj [(''city'', JStr ''''), (''country'', JStr ''France''), (''theme'', JStr ''nope'')]) no_jobs
     = Inr ((ErrorBody ''City and country are required'', 400), no_jobs, None) \<and>
   \<not> sublist ''nope'' ''City and country are required''"
proof -
  have "\<not> sublist ''nope'' ''City and country are required''"
    by code_simp
  then show ?thesis
    by (simp add: theme_member_def demo_env_def generate_def dict_get_def strip_def py_strip_def)
qed

text \<open>
  Claim C7, amended. For every request that passes the check of the required fields (city
  and country are strs that are not blank) and whose display name is absent or a str, when
  the theme value \<open>tv\<close> (the default \<open>feature_based\<close> when the key is absent) is not among
  the available themes, the handler answers 400, the message is
  \<^verbatim>\<open>Theme '<tv>' not found\<close> and so contains the theme id, the store is returned as it was,
  and no thread is started.
\<close>

theorem generate_unknown_theme:
  assumes "absent_or_str data ''city''" and "\<not> blank data ''city''"
    and "absent_or_str data ''country''" and "\<not> blank data ''country''"
    and "absent_or_str data ''display_name''"
    and "dict_get data ''theme'' (JStr ''feature_based'') = Inr tv"
    and "theme_member tv (available_themes env) = None"
  shows "generate env u data jobs = Inr ((ErrorBody (theme_not_found env tv), 400), jobs, None) \<and>
         sublist (format_value env tv) (theme_not_found env tv) \<and>
         (\<forall>s. tv = JStr s \<longrightarrow>
            theme_not_found env tv = ''Theme '' @ [CHR 0x27] @ s @ [CHR 0x27] @ '' not found'')"
proof -
  obtain c where c: "bind (dict_get data ''city'' (JStr [])) strip = Inr c" "c \<noteq> []"
    using get_strip_field [OF assms(1)] assms(2) by blast
  obtain k where k: "bind (dict_get data ''country'' (JStr [])) strip = Inr k" "k \<noteq> []"
    using get_strip_field [OF assms(3)] assms(4) by blast
  obtain dn where dn: "bind (dict_get data ''display_name'' (JStr [])) strip = Inr dn"
    using get_strip_field [OF assms(5)] by blast
  obtain kvs where data: "data = JObj kvs"
    using absent_or_str_obj [OF assms(1)] by blast
  have dv: "dict_get data ''distance'' (JInt 10000) =
              Inr (case map_of kvs ''distance'' of None \<Rightarrow> JInt 10000 | Some v \<Rightarrow> v)"
    by (simp add: data dict_get_obj)
  have "generate env u data jobs = Inr ((ErrorBody (theme_not_found env tv), 400), jobs, None)"
    by (simp add: generate_after_fields [OF c(1) k(1) c(2) k(2) dn assms(6) dv] assms(7))
  moreover have "\<forall>s. tv = JStr s \<longrightarrow>
            theme_not_found env tv = ''Theme '' @ [CHR 0x27] @ s @ [CHR 0x27] @ '' not found''"
    by (simp add: theme_not_found_def format_value_def)
  ultimately show ?thesis using format_in_message by blast
qed

theorem generate_unknown_theme_witness:
  "theme_member (JStr ''nope'') (available_themes demo_env) = None \<and>
   generate demo_env ''u1''
     (JObj [(''city'', JStr ''Paris''), (''country'', JStr ''France''), (''theme'', JStr ''nope'')])
     demo_jobs
     = Inr ((ErrorBody ''Theme 'nope' not found'', 400), demo_jobs, None) \<and>
   sublist ''nope'' ''Theme 'nope' not found''"
proof -
  let ?d = "JObj [(''city'', JStr ''Paris''), (''country'', JStr ''France''), (''theme'', JStr ''nope'')]"
  have h1: "absent_or_str ?d ''city''" by (simp add: absent_or_str_def)
  have h2: "\<not> blank ?d ''city''" by (simp add: blank_def is_space_def)
  have h3: "absent_or_str ?d ''country''" by (simp add: absent_or_str_def)
  have h4: "\<not> blank ?d ''country''" by (simp add: blank_def is_space_def)
  have h5: "absent_or_str ?d ''display_name''" by (simp add: absent_or_str_def)
  have h6: "dict_get ?d ''theme'' (JStr ''feature_based'') = Inr (JStr ''nope'')"
    by (simp add: dict_get_def)
  have h7: "theme_member (JStr ''nope'') (available_themes demo_env) = None"
    by (simp add: theme_member_def demo_env_def)
  have m: "theme_not_found demo_env (JStr ''nope'') = ''Theme 'nope' not found''"
    by (simp add: theme_not_found_def format_value_def)
  have f: "format_value demo_env (JStr ''nope'') = ''nope''"
    by (simp add: format_value_def)
  from generate_unknown_theme [of ?d "JStr ''nope''" demo_env "''u1''" demo_jobs,
      OF h1 h2 h3 h4 h5 h6 h7] h7
  show ?thesis by (simp add: m f)
qed

text \<open>
  Claim C6 (the code misses a case). The handler converts the distance inside
  \<^verbatim>\<open>try ... except ValueError\<close>. \<^verbatim>\<open>int(None)\<close> raises \<^verbatim>\<open>TypeError\<close>, which that clause
  does not catch: for a request with valid city and country and the distance \<^verbatim>\<open>null\<close>,
  the exception leaves the handler instead of a 400 response. (The lemma
  \<open>generate_distance_accepts_iff\<close> below states the part of the claim the code keeps.)
\<close>

theorem generate_distance_null_unhandled:
  "generate demo_env ''u1''
     (JObj [(''city'', JStr ''Paris''), (''country'', JStr ''France''), (''distance'', JNull)])
     no_jobs = Inl TypeError"
  by (simp add: generate_def dict_get_def strip_def py_strip_def is_space_def theme_member_def
      demo_env_def)

section \<open>Accepted submissions\<close>

lemma generate_distance_accepts_iff:
  assumes "bind (dict_get data ''city'' (JStr [])) strip = Inr c"
    and "bind (dict_get data ''country'' (JStr [])) strip = Inr k"
    and "c \<noteq> []" and "k \<noteq> []"
    and "bind (dict_get data ''display_name'' (JStr [])) strip = Inr dn"
    and "dict_get data ''theme'' (JStr ''feature_based'') = Inr tv"
    and "dict_get data ''distance'' (JInt 10000) = Inr dv"
    and "theme_member tv (available_themes env) = Some th"
  shows "(\<exists>js t. generate env u data jobs = Inr ((JobIdBody u, 200), js, t)) \<longleftrightarrow>
         (\<exists>d. py_int (int_of_str env) dv = Inr d \<and> 1000 \<le> d \<and> d \<le> 50000)"
    and "py_int (int_of_str env) dv = Inl ValueError \<Longrightarrow>
         generate env u data jobs = Inr ((ErrorBody ''Invalid distance value'', 400), jobs, None)"
    and "py_int (int_of_str env) dv = Inl TypeError \<Longrightarrow> generate env u data jobs = Inl TypeError"
  unfolding generate_after_fields [OF assms(1-7)] assms(8)
  by (auto split: sum.splits py_error.splits)

lemma issued_Submit:
  "\<exists>xs. xs \<in> {[], [u]} \<and>
     issued env jobs (Submit u data # evs) = xs @ issued env (step env jobs (Submit u data)) evs"
proof -
  have "(case generate env u data jobs of
           Inr ((JobIdBody i, code), jobs', th) \<Rightarrow> [i]
         | _ \<Rightarrow> []) \<in> {[], [u]}"
    using generate_cases [of env u data jobs] by auto
  then show ?thesis by (simp only: issued.simps) blast
qed

lemma issued_set: "set (issued env jobs evs) \<subseteq> set (draws evs)"
proof (induction env jobs evs rule: issued.induct)
  case (2 env jobs u data evs)
  obtain xs where xs: "xs \<in> {[], [u]}"
    "issued env jobs (Submit u data # evs) = xs @ issued env (step env jobs (Submit u data)) evs"
    using issued_Submit by blast
  from "2.IH" xs(1) show ?case unfolding xs(2) by auto
qed auto

lemma issued_distinct: "distinct (draws evs) \<Longrightarrow> distinct (issued env jobs evs)"
proof (induction env jobs evs rule: issued.induct)
  case (2 env jobs u data evs)
  obtain xs where xs: "xs \<in> {[], [u]}"
    "issued env jobs (Submit u data # evs) = xs @ issued env (step env jobs (Submit u data)) evs"
    using issued_Submit by blast
  from 2 have d: "distinct (issued env (step env jobs (Submit u data)) evs)"
    and u: "u \<notin> set (draws evs)" by simp_all
  from u issued_set [of env "step env jobs (Submit u data)" evs]
  have "u \<notin> set (issued env (step env jobs (Submit u data)) evs)" by blast
  with d xs(1) show ?case unfolding xs(2) by auto
qed auto

lemma get_status_dom: "i \<in> dom jobs \<Longrightarrow> snd (get_status jobs i) = 200"
  by (auto simp: get_status_def)

text \<open>
  Claim C2. When a submission passes validation (the handler answers 200), the response
  carries the id \<open>u\<close> that \<^verbatim>\<open>uuid4\<close> gave, the store returned has under \<open>u\<close> a record
  with status \<open>pending\<close> and progress 0, and the thread is started with that same id on
  that store: its first call already finds the record. A status query for \<open>u\<close> answers
  200 at once and after any further events of the server, never 404. The ids issued are
  among the strings \<^verbatim>\<open>uuid4\<close> has given: as long as \<^verbatim>\<open>uuid4\<close> does not repeat itself, the
  id returned differs from every id issued before, and all ids issued are distinct.
\<close>

theorem generate_inserts_before_return:
  assumes "generate env u data jobs = Inr ((b, 200), jobs', th)"
  shows "\<exists>c k t d n.
           b = JobIdBody u \<and>
           jobs' = jobs(u \<mapsto> new_job c k t d n) \<and>
           status (new_job c k t d n) = ''pending'' \<and> progress (new_job c k t d n) = 0 \<and>
           th = Some (u, c, k, t, d, n) \<and>
           get_status jobs' u = (JobBody (new_job c k t d n), 200) \<and>
           apply_call jobs' (u, ''geocoding'', Some 10, None, None) u =
             Some ((new_job c k t d n)\<lparr>status := ''geocoding'', progress := 10\<rparr>) \<and>
           (\<forall>evs. snd (get_status (foldl (step env) jobs' evs) u) = 200) \<and>
           (u \<notin> set (draws evs0) \<longrightarrow> u \<notin> set (issued env jobs0 evs0)) \<and>
           (distinct (draws evs0) \<longrightarrow> distinct (issued env jobs0 evs0))"
proof -
  from generate_cases [of env u data jobs] assms
  obtain c k t d n where g: "b = JobIdBody u" "jobs' = jobs(u \<mapsto> new_job c k t d n)"
      "th = Some (u, c, k, t, d, n)"
    by auto
  have "u \<in> dom jobs'" by (simp add: g)
  then have "\<forall>evs. snd (get_status (foldl (step env) jobs' evs) u) = 200"
    using foldl_step_dom [of jobs' env] get_status_dom by blast
  moreover have "u \<notin> set (draws evs0) \<longrightarrow> u \<notin> set (issued env jobs0 evs0)"
    using issued_set [of env jobs0 evs0] by blast
  moreover have "distinct (draws evs0) \<longrightarrow> distinct (issued env jobs0 evs0)"
    by (simp add: issued_distinct)
  moreover have "get_status jobs' u = (JobBody (new_job c k t d n), 200)"
    by (simp add: g get_status_def)
  moreover have "apply_call jobs' (u, ''geocoding'', Some 10, None, None) u =
             Some ((new_job c k t d n)\<lparr>status := ''geocoding'', progress := 10\<rparr>)"
    by (simp add: g update_job_status_def)
  moreover have "status (new_job c k t d n) = ''pending''" "progress (new_job c k t d n) = 0"
    by (simp_all add: new_job_def)
  ultimately show ?thesis using g by blast
qed

lemma demo_generate:
  "generate demo_env u demo_request jobs =
     Inr ((JobIdBody u, 200), jobs(u \<mapsto> new_job ''Paris'' ''France'' ''noir'' 5000 None),
          Some (u, ''Paris'', ''France'', ''noir'', 5000, None))"
  by (simp add: generate_def demo_request_def dict_get_def strip_def py_strip_def is_space_def
      theme_member_def demo_env_def decimal_def Let_def)

theorem generate_inserts_before_return_witness:
  "generate demo_env ''u2'' demo_request demo_jobs =
     Inr ((JobIdBody ''u2'', 200),
          demo_jobs(''u2'' \<mapsto> new_job ''Paris'' ''France'' ''noir'' 5000 None),
          Some (''u2'', ''Paris'', ''France'', ''noir'', 5000, None)) \<and>
   snd (get_status
     (foldl (step demo_env) (demo_jobs(''u2'' \<mapsto> new_job ''Paris'' ''France'' ''noir'' 5000 None))
        [Update (''u2'', ''geocoding'', Some 10, None, None), Submit ''u3'' demo_request, Poll ''u2''])
     ''u2'') = 200 \<and>
   ''u2'' \<notin> set (draws [Submit ''u1'' demo_request, Poll ''u1'']) \<and>
   ''u2'' \<notin> set (issued demo_env no_jobs [Submit ''u1'' demo_request, Poll ''u1'']) \<and>
   distinct (draws [Submit ''u1'' demo_request, Poll ''u1'', Submit ''u2'' demo_request]) \<and>
   issued demo_env no_jobs [Submit ''u1'' demo_request, Poll ''u1'', Submit ''u2'' demo_request]
     = [''u1'', ''u2'']"
proof -
  have h: "generate demo_env ''u2'' demo_request demo_jobs =
     Inr ((JobIdBody ''u2'', 200),
          demo_jobs(''u2'' \<mapsto> new_job ''Paris'' ''France'' ''noir'' 5000 None),
          Some (''u2'', ''Paris'', ''France'', ''noir'', 5000, None))"
    by (rule demo_generate)
  have d1: "''u2'' \<notin> set (draws [Submit ''u1'' demo_request, Poll ''u1''])" by simp
  have d2: "distinct (draws [Submit ''u1'' demo_request, Poll ''u1'', Submit ''u2'' demo_request])"
    by simp
  have i: "issued demo_env no_jobs [Submit ''u1'' demo_request, Poll ''u1'', Submit ''u2'' demo_request]
     = [''u1'', ''u2'']"
    by (simp add: demo_generate)
  from generate_inserts_before_return [of demo_env "''u2''" demo_request demo_jobs
      "JobIdBody ''u2''" "demo_jobs(''u2'' \<mapsto> new_job ''Paris'' ''France'' ''noir'' 5000 None)"
      "Some (''u2'', ''Paris'', ''France'', ''noir'', 5000, None)"
      "[Submit ''u1'' demo_request, Poll ''u1'']" no_jobs, OF h]
  have "(\<forall>evs. snd (get_status (foldl (step demo_env)
           (demo_jobs(''u2'' \<mapsto> new_job ''Paris'' ''France'' ''noir'' 5000 None)) evs) ''u2'') = 200) \<and>
        (''u2'' \<notin> set (draws [Submit ''u1'' demo_request, Poll ''u1'']) \<longrightarrow>
         ''u2'' \<notin> set (issued demo_env no_jobs [Submit ''u1'' demo_request, Poll ''u1'']))"
    by blast
  with d1 have "snd (get_status
     (foldl (step demo_env) (demo_jobs(''u2'' \<mapsto> new_job ''Paris'' ''France'' ''noir'' 5000 None))
        [Update (''u2'', ''geocoding'', Some 10, None, None), Submit ''u3'' demo_request, Poll ''u2''])
     ''u2'') = 200 \<and>
     ''u2'' \<notin> set (issued demo_env no_jobs [Submit ''u1'' demo_request, Poll ''u1''])"
    by blast
  with h d1 d2 i show ?thesis by blast
qed

end
